theory Spec2Isabelle
  imports Complex_Main "HOL-Library.Product_Lexorder" "HOL-Library.Multiset"
begin

section \<open>Calendar dates\<close>

text \<open>
  The source handles dates as \<^verbatim>\<open>pd.Timestamp\<close> values and reads their \<^verbatim>\<open>year\<close>,
  \<^verbatim>\<open>month\<close> and \<^verbatim>\<open>day\<close> fields. A date is modelled as the triple (year, month, day)
  at day granularity; the order on triples is the lexicographic one, which is how
  calendar dates compare. The \<^verbatim>\<open>.days\<close> of a difference of two timestamps is the
  difference of the proleptic Gregorian day numbers.
\<close>

type_synonym date = "int \<times> int \<times> int"

definition year :: "date \<Rightarrow> int" where
  "year d = fst d"

definition month :: "date \<Rightarrow> int" where
  "month d = fst (snd d)"

definition day :: "date \<Rightarrow> int" where
  "day d = snd (snd d)"

definition is_leap :: "int \<Rightarrow> bool" where
  "is_leap y \<longleftrightarrow> y mod 4 = 0 \<and> (y mod 100 \<noteq> 0 \<or> y mod 400 = 0)"

definition days_in_month :: "int \<Rightarrow> int \<Rightarrow> int" where
  "days_in_month y m =
     (if m = 2 then (if is_leap y then 29 else 28)
      else if m = 4 \<or> m = 6 \<or> m = 9 \<or> m = 11 then 30
      else 31)"

definition valid_date :: "date \<Rightarrow> bool" where
  "valid_date d \<longleftrightarrow>
     1 \<le> month d \<and> month d \<le> 12 \<and> 1 \<le> day d \<and> day d \<le> days_in_month (year d) (month d)"

definition days_before_year :: "int \<Rightarrow> int" where
  "days_before_year y = (y - 1) * 365 + (y - 1) div 4 - (y - 1) div 100 + (y - 1) div 400"

definition days_before_month :: "int \<Rightarrow> int \<Rightarrow> int" where
  "days_before_month y m =
     (if m \<le> 1 then 0
      else if m = 2 then 31
      else (if is_leap y then 1 else 0) +
        (if m = 3 then 59 else if m = 4 then 90 else if m = 5 then 120
         else if m = 6 then 151 else if m = 7 then 181 else if m = 8 then 212
         else if m = 9 then 243 else if m = 10 then 273 else if m = 11 then 304
         else 334))"

definition toordinal :: "date \<Rightarrow> int" where
  "toordinal d = days_before_year (year d) + days_before_month (year d) (month d) + day d"

text \<open>\<^verbatim>\<open>(a - b).days\<close> for two dates.\<close>

definition dias_entre :: "date \<Rightarrow> date \<Rightarrow> int" where
  "dias_entre a b = toordinal a - toordinal b"

text \<open>\<^verbatim>\<open>fecha + pd.offsets.MonthEnd(0)\<close>: the last day of the month of \<open>fecha\<close>.\<close>

definition ultimo_dia_mes :: "date \<Rightarrow> date" where
  "ultimo_dia_mes f = (year f, month f, days_in_month (year f) (month f))"

text \<open>\<^verbatim>\<open>fecha.to_period('M').start_time\<close>: the first day of the month of \<open>fecha\<close>.\<close>

definition inicio_mes :: "date \<Rightarrow> date" where
  "inicio_mes f = (year f, month f, 1)"

text \<open>\<^verbatim>\<open>(d.to_period('M') + 1).start_time\<close>: the first day of the following month.\<close>

definition inicio_mes_siguiente :: "date \<Rightarrow> date" where
  "inicio_mes_siguiente d =
     (if month d = 12 then (year d + 1, 1, 1) else (year d, month d + 1, 1))"

text \<open>
  \<^verbatim>\<open>fecha.to_period('M').start_time - pd.Timedelta(days=1)\<close>: the last day of the
  month before the month of \<open>fecha\<close>.
\<close>

definition fecha_ajustada :: "date \<Rightarrow> date" where
  "fecha_ajustada f =
     (if month f = 1 then (year f - 1, 12, 31)
      else (year f, month f - 1, days_in_month (year f) (month f - 1)))"

section \<open>Tables\<close>

text \<open>
  One row of \<^verbatim>\<open>creditos\<close>; \<open>indice\<close> is the index label of the row (the credit
  identifier, against which the grouped payments are reindexed). Amounts are floats
  in the source and exact rationals here.
\<close>

record credito =
  indice :: nat
  fecha_apertura :: date
  fecha_primer_pago :: date
  plazo :: int
  cuota_mensual :: rat
  saldo_inicial :: rat
  fecha_cierre :: "date option"

text \<open>
  One row of \<^verbatim>\<open>creditos_pagos\<close>; the table is the list of its rows in row order.
  Every field holds a value: the grouped \<^verbatim>\<open>sum\<close> and \<^verbatim>\<open>last\<close> of the source skip
  missing entries, which these types do not have.
\<close>

record pago =
  id_credito :: nat
  fecha_pago :: date
  monto_pago :: rat
  saldo_posterior :: rat

text \<open>
  A float that holds a whole number, an infinity or NaN: the values that
  \<^verbatim>\<open>atraso_pagos\<close> can take. Comparisons with NaN are false.
\<close>

datatype flt = NaN | NegInf | Fin int | PosInf

definition flt_le :: "flt \<Rightarrow> flt \<Rightarrow> bool" where
  "flt_le a b =
     (case (a, b) of
        (NaN, _) \<Rightarrow> False
      | (_, NaN) \<Rightarrow> False
      | (NegInf, _) \<Rightarrow> True
      | (_, PosInf) \<Rightarrow> True
      | (Fin x, Fin y) \<Rightarrow> x \<le> y
      | _ \<Rightarrow> False)"

section \<open>Schedule\<close>

text \<open>
  Each function of the source works on whole columns, row by row; the model gives the
  value for one credit, and the entry points map it over the table.

  \<^verbatim>\<open>Series.clip(lower=0, upper=plazo)\<close> with a scalar lower bound and a column as upper
  bound first raises the value to the lower bound and then replaces it by the upper
  bound where the value before clipping exceeds the upper bound.
\<close>

definition clip :: "int \<Rightarrow> int \<Rightarrow> int \<Rightarrow> int" where
  "clip x lower upper = (if x \<le> upper then max x lower else upper)"

definition pagos_requeridos :: "credito \<Rightarrow> date \<Rightarrow> int option" where
  "pagos_requeridos c fecha =
     (let es_ultimo_dia_mes = (fecha = ultimo_dia_mes fecha);
          pagos_req =
            (year fecha - year (fecha_primer_pago c)) * 12 +
            (month fecha - month (fecha_primer_pago c)) -
            (if \<not> es_ultimo_dia_mes \<and> day fecha < day (fecha_primer_pago c) then 1 else 0) +
            1;
          pagos_req = clip pagos_req 0 (plazo c)
      in if fecha_apertura c \<le> fecha then Some pagos_req else None)"

definition monto_requerido :: "credito \<Rightarrow> int option \<Rightarrow> rat option" where
  "monto_requerido c pagos_req = map_option (\<lambda>n. cuota_mensual c * of_int n) pagos_req"

section \<open>Ledger\<close>

text \<open>\<^verbatim>\<open>creditos_pagos[creditos_pagos['fecha_pago'] <= fecha]\<close>\<close>

definition pagos_filtrados :: "pago list \<Rightarrow> date \<Rightarrow> pago list" where
  "pagos_filtrados creditos_pagos fecha = filter (\<lambda>p. fecha_pago p \<le> fecha) creditos_pagos"

text \<open>
  The group of a credit after \<^verbatim>\<open>groupby('id_credito')\<close> and
  \<^verbatim>\<open>reindex(creditos.index)\<close>: the rows with the credit's label, in row order.
\<close>

definition grupo :: "credito \<Rightarrow> pago list \<Rightarrow> pago list" where
  "grupo c ps = filter (\<lambda>p. id_credito p = indice c) ps"

definition monto_pagado :: "credito \<Rightarrow> pago list \<Rightarrow> date \<Rightarrow> rat option" where
  "monto_pagado c creditos_pagos fecha =
     (let g = grupo c (pagos_filtrados creditos_pagos fecha);
          monto_pag = (if g = [] then None else Some (sum_list (map monto_pago g)))
      in if fecha < fecha_apertura c \<or> monto_pag \<noteq> None then monto_pag else Some 0)"

definition fecha_ultimo_pago :: "credito \<Rightarrow> pago list \<Rightarrow> date \<Rightarrow> date option" where
  "fecha_ultimo_pago c creditos_pagos fecha =
     (let g = grupo c (pagos_filtrados creditos_pagos fecha)
      in if g = [] then None else Some (fecha_pago (last g)))"

section \<open>Status and aging\<close>

definition estatus :: "rat option \<Rightarrow> rat option \<Rightarrow> string option" where
  "estatus monto_req monto_pag =
     (case (monto_req, monto_pag) of
        (Some r, Some p) \<Rightarrow>
          (let est = None;
               est = (if p < r * 0.98 then Some ''Atrasado'' else est);
               est = (if r * 0.98 \<le> p \<and> p \<le> r then Some ''Al Corriente'' else est);
               est = (if p > r then Some ''Adelantado'' else est)
           in est)
      | _ \<Rightarrow> None)"

definition dias_sin_pagar :: "credito \<Rightarrow> date option \<Rightarrow> date \<Rightarrow> int option" where
  "dias_sin_pagar c fecha_ult_pago fecha =
     (let dias = map_option (\<lambda>u. max 0 (dias_entre fecha u - 30)) fecha_ult_pago
      in if dias = None \<and> fecha_apertura c \<le> fecha
         then Some (dias_entre fecha (fecha_apertura c))
         else dias)"

text \<open>\<^verbatim>\<open>np.round(x, 0)\<close> rounds to the nearest whole number, a half to the even one.\<close>

definition np_round :: "rat \<Rightarrow> int" where
  "np_round x =
     (let n = \<lfloor>x\<rfloor>; r = x - of_int n
      in if r < 1 / 2 then n else if 1 / 2 < r then n + 1
         else if even n then n else n + 1)"

text \<open>
  \<^verbatim>\<open>np.round(monto_pag / cuota_mensual + 1e-10, 0)\<close>; a float division by zero gives
  an infinity, or NaN for \<open>0 / 0\<close>.
\<close>

definition pagos_realizados :: "credito \<Rightarrow> rat option \<Rightarrow> flt" where
  "pagos_realizados c monto_pag =
     (case monto_pag of
        None \<Rightarrow> NaN
      | Some p \<Rightarrow>
          if cuota_mensual c = 0
          then (if p = 0 then NaN else if 0 < p then PosInf else NegInf)
          else Fin (np_round (p / cuota_mensual c + 1 / 10000000000)))"

definition atraso_pagos :: "credito \<Rightarrow> int option \<Rightarrow> rat option \<Rightarrow> flt" where
  "atraso_pagos c pagos_req monto_pag =
     (case pagos_req of
        None \<Rightarrow> NaN
      | Some n \<Rightarrow>
          (case pagos_realizados c monto_pag of
             NaN \<Rightarrow> NaN
           | Fin k \<Rightarrow> Fin (n - k)
           | PosInf \<Rightarrow> NegInf
           | NegInf \<Rightarrow> PosInf))"

text \<open>
  The row that \<^verbatim>\<open>tipo_paridad\<close> hands to \<^verbatim>\<open>logica_paridad\<close>. A missing status is
  \<^verbatim>\<open>pd.NA\<close>, a missing day count is NaN.
\<close>

record fila =
  fila_fecha_apertura :: date
  fila_estatus :: "string option"
  fila_dias_sin_pagar :: "int option"
  fila_atraso_pagos :: flt

datatype py_error = TypeError

text \<open>\<^verbatim>\<open>row['dias_sin_pagar'] > t\<close>, false for NaN.\<close>

definition dias_gt :: "fila \<Rightarrow> int \<Rightarrow> bool" where
  "dias_gt row t = (case fila_dias_sin_pagar row of None \<Rightarrow> False | Some d \<Rightarrow> t < d)"

text \<open>\<^verbatim>\<open>row['atraso_pagos'] >= k\<close>\<close>

definition atraso_ge :: "fila \<Rightarrow> int \<Rightarrow> bool" where
  "atraso_ge row k = flt_le (Fin k) (fila_atraso_pagos row)"

text \<open>
  \<^verbatim>\<open>logica_paridad\<close>. Comparing \<^verbatim>\<open>pd.NA\<close> with a string gives \<^verbatim>\<open>pd.NA\<close>, whose
  truth value in an \<^verbatim>\<open>if\<close> raises TypeError.
\<close>

definition logica_paridad :: "fila \<Rightarrow> date \<Rightarrow> py_error + string" where
  "logica_paridad row fecha =
     (if fecha < fila_fecha_apertura row then Inr ''Al Corriente''
      else if flt_le (fila_atraso_pagos row) (Fin 0) then
        (case fila_estatus row of
           None \<Rightarrow> Inl TypeError
         | Some e \<Rightarrow>
             if e \<noteq> ''Atrasado'' then Inr ''Al Corriente''
             else if dias_gt row 360 then Inr ''PAR 360''
             else if dias_gt row 270 then Inr ''PAR 270''
             else if dias_gt row 180 then Inr ''PAR 180''
             else if dias_gt row 150 then Inr ''PAR 150''
             else if dias_gt row 120 then Inr ''PAR 120''
             else if dias_gt row 90 then Inr ''PAR 90''
             else if dias_gt row 60 then Inr ''PAR 60''
             else if dias_gt row 30 then Inr ''PAR 30''
             else Inr ''PAR 1'')
      else if dias_gt row 360 \<or> atraso_ge row 13 then Inr ''PAR 360''
      else if dias_gt row 270 \<or> atraso_ge row 10 then Inr ''PAR 270''
      else if dias_gt row 180 \<or> atraso_ge row 7 then Inr ''PAR 180''
      else if dias_gt row 150 \<or> atraso_ge row 6 then Inr ''PAR 150''
      else if dias_gt row 120 \<or> atraso_ge row 5 then Inr ''PAR 120''
      else if dias_gt row 90 \<or> atraso_ge row 4 then Inr ''PAR 90''
      else if dias_gt row 60 \<or> atraso_ge row 3 then Inr ''PAR 60''
      else if dias_gt row 30 \<or> atraso_ge row 2 then Inr ''PAR 30''
      else Inr ''PAR 1'')"

section \<open>Entry points\<close>

text \<open>The row of one credit as \<^verbatim>\<open>paridad\<close> computes it, and its bucket.\<close>

definition fila_credito :: "credito \<Rightarrow> pago list \<Rightarrow> date \<Rightarrow> fila" where
  "fila_credito c creditos_pagos fecha =
     (let pagos_req = pagos_requeridos c fecha;
          monto_req = monto_requerido c pagos_req;
          monto_pag = monto_pagado c creditos_pagos fecha;
          estatus_series = estatus monto_req monto_pag;
          fecha_ult_pago = fecha_ultimo_pago c creditos_pagos fecha;
          dias_sin_pago = dias_sin_pagar c fecha_ult_pago fecha;
          atraso_series = atraso_pagos c pagos_req monto_pag
      in \<lparr>fila_fecha_apertura = fecha_apertura c, fila_estatus = estatus_series,
          fila_dias_sin_pagar = dias_sin_pago, fila_atraso_pagos = atraso_series\<rparr>)"

definition paridad_credito :: "credito \<Rightarrow> pago list \<Rightarrow> date \<Rightarrow> py_error + string" where
  "paridad_credito c creditos_pagos fecha =
     logica_paridad (fila_credito c creditos_pagos fecha) fecha"

text \<open>\<^verbatim>\<open>df.apply(..., axis=1)\<close>: row after row, the first exception ends the call.\<close>

fun aplicar :: "('a \<Rightarrow> py_error + 'b) \<Rightarrow> 'a list \<Rightarrow> py_error + 'b list" where
  "aplicar f [] = Inr []"
| "aplicar f (x # xs) =
     (case f x of
        Inl e \<Rightarrow> Inl e
      | Inr y \<Rightarrow> (case aplicar f xs of Inl e \<Rightarrow> Inl e | Inr ys \<Rightarrow> Inr (y # ys)))"

definition paridad :: "credito list \<Rightarrow> pago list \<Rightarrow> date \<Rightarrow> py_error + string list" where
  "paridad creditos creditos_pagos fecha =
     aplicar (\<lambda>c. paridad_credito c creditos_pagos fecha) creditos"

definition paridad_inicial :: "credito list \<Rightarrow> pago list \<Rightarrow> date \<Rightarrow> py_error + string list" where
  "paridad_inicial creditos creditos_pagos fecha =
     paridad creditos creditos_pagos (fecha_ajustada fecha)"

definition saldo_credito :: "credito \<Rightarrow> pago list \<Rightarrow> date \<Rightarrow> rat" where
  "saldo_credito c creditos_pagos fecha =
     (let g = grupo c (pagos_filtrados creditos_pagos fecha);
          saldo_series = (if g = [] then None else Some (saldo_posterior (last g)))
      in case saldo_series of Some s \<Rightarrow> s | None \<Rightarrow> saldo_inicial c)"

definition saldo :: "credito list \<Rightarrow> pago list \<Rightarrow> date \<Rightarrow> rat list" where
  "saldo creditos creditos_pagos fecha = map (\<lambda>c. saldo_credito c creditos_pagos fecha) creditos"

text \<open>
  The function \<^verbatim>\<open>saldo_inicial\<close> of the source; the name \<open>saldo_inicial\<close> is taken by
  the column of the credit table.
\<close>

definition saldo_inicial_mes :: "credito list \<Rightarrow> pago list \<Rightarrow> date \<Rightarrow> rat list" where
  "saldo_inicial_mes creditos creditos_pagos fecha =
     saldo creditos creditos_pagos (fecha_ajustada fecha)"

definition fecha_maxima :: date where
  "fecha_maxima = (2200, 12, 31)"

definition considerar_credito :: "credito \<Rightarrow> date \<Rightarrow> bool" where
  "considerar_credito c fecha =
     (let fecha_actual = inicio_mes fecha;
          fecha_inicial = inicio_mes_siguiente (fecha_apertura c);
          fecha_final = (case fecha_cierre c of None \<Rightarrow> fecha_maxima | Some z \<Rightarrow> z)
      in fecha_inicial \<le> fecha_actual \<and> fecha_actual < fecha_final)"

definition considerar :: "credito list \<Rightarrow> date \<Rightarrow> credito list" where
  "considerar creditos fecha = filter (\<lambda>c. considerar_credito c fecha) creditos"

section \<open>The threshold table of the specification\<close>

text \<open>
  The specification gives the aging bucket as one ordered table of rows (bucket, day
  threshold, arrears threshold), scanned from the most severe row down; the first row
  whose day threshold is exceeded or whose arrears threshold is met wins, and
  \<^verbatim>\<open>PAR 1\<close> is the default. It is preceded by the rule that a credit that is not in
  arrears and not delinquent is current. The specification writes \<^verbatim>\<open>Current\<close> for the
  label \<^verbatim>\<open>Al Corriente\<close> and \<^verbatim>\<open>Delinquent\<close> for \<^verbatim>\<open>Atrasado\<close>.
\<close>

definition tabla_umbrales :: "(string \<times> int \<times> int) list" where
  "tabla_umbrales =
     [(''PAR 360'', 360, 13), (''PAR 270'', 270, 10), (''PAR 180'', 180, 7),
      (''PAR 150'', 150, 6), (''PAR 120'', 120, 5), (''PAR 90'', 90, 4),
      (''PAR 60'', 60, 3), (''PAR 30'', 30, 2)]"

fun primera_coincidencia :: "(string \<times> int \<times> int) list \<Rightarrow> int \<Rightarrow> int \<Rightarrow> string" where
  "primera_coincidencia [] dias atraso = ''PAR 1''"
| "primera_coincidencia ((b, td, ta) # rest) dias atraso =
     (if td < dias \<or> ta \<le> atraso then b else primera_coincidencia rest dias atraso)"

definition aging_bucket_spec :: "date \<Rightarrow> string \<Rightarrow> int \<Rightarrow> int \<Rightarrow> date \<Rightarrow> string" where
  "aging_bucket_spec open_date payment_status days_without_payment arrears_count as_of =
     (if as_of < open_date then ''Al Corriente''
      else if arrears_count \<le> 0 \<and> payment_status \<noteq> ''Atrasado'' then ''Al Corriente''
      else primera_coincidencia tabla_umbrales days_without_payment arrears_count)"

section \<open>Example inputs\<close>

text \<open>
  The credit of the specification's scenario: opened 2023-01-01, first payment
  2023-02-01, twelve installments of 1000.
\<close>

definition credito_ejemplo :: credito where
  "credito_ejemplo =
     \<lparr>indice = 1, fecha_apertura = (2023, 1, 1), fecha_primer_pago = (2023, 2, 1),
      plazo = 12, cuota_mensual = 1000, saldo_inicial = 12000, fecha_cierre = None\<rparr>"



text \<open>
  A credit that opens on 2023-06-01, and a ledger with a payment of it dated before
  the opening, a later payment of it, and a payment of another credit.
\<close>

definition credito_futuro :: credito where
  "credito_futuro =
     \<lparr>indice = 3, fecha_apertura = (2023, 6, 1), fecha_primer_pago = (2023, 7, 1),
      plazo = 12, cuota_mensual = 1000, saldo_inicial = 12000, fecha_cierre = None\<rparr>"

definition pagos_anticipados :: "pago list" where
  "pagos_anticipados =
     [\<lparr>id_credito = 3, fecha_pago = (2023, 1, 10), monto_pago = 500, saldo_posterior = 11500\<rparr>,
      \<lparr>id_credito = 3, fecha_pago = (2023, 4, 10), monto_pago = 300, saldo_posterior = 11200\<rparr>,
      \<lparr>id_credito = 1, fecha_pago = (2023, 1, 5), monto_pago = 50, saldo_posterior = 11950\<rparr>]"

text \<open>A credit opened 2023-01-10 and closed on the date \<open>z\<close>.\<close>

definition credito_cerrado :: "date \<Rightarrow> credito" where
  "credito_cerrado z =
     \<lparr>indice = 5, fecha_apertura = (2023, 1, 10), fecha_primer_pago = (2023, 2, 10),
      plazo = 12, cuota_mensual = 1000, saldo_inicial = 12000, fecha_cierre = Some z\<rparr>"

text \<open>
  Two ledgers with the same rows, three payments of the scenario's credit and one of
  another credit. The first has the credit's payments in ascending date order, the
  second has the first two rows in the opposite order.
\<close>

definition pagos_orden :: "pago list" where
  "pagos_orden =
     [\<lparr>id_credito = 1, fecha_pago = (2023, 3, 1), monto_pago = 1000, saldo_posterior = 11000\<rparr>,
      \<lparr>id_credito = 1, fecha_pago = (2023, 4, 1), monto_pago = 1000, saldo_posterior = 10000\<rparr>,
      \<lparr>id_credito = 1, fecha_pago = (2023, 7, 1), monto_pago = 1000, saldo_posterior = 9000\<rparr>,
      \<lparr>id_credito = 7, fecha_pago = (2023, 5, 20), monto_pago = 400, saldo_posterior = 5000\<rparr>]"


text \<open>A credit with a negative term, opened 2022-01-01, first payment 2023-02-01.\<close>

definition credito_plazo_negativo :: credito where
  "credito_plazo_negativo =
     \<lparr>indice = 11, fecha_apertura = (2022, 1, 1), fecha_primer_pago = (2023, 2, 1),
      plazo = - 1, cuota_mensual = 1000, saldo_inicial = 12000, fecha_cierre = None\<rparr>"

text \<open>
  A credit with a negative term and a closing date before its opening date, and a
  ledger whose only payment names a credit that is not in the credit table.
\<close>

definition credito_defectuoso :: credito where
  "credito_defectuoso =
     \<lparr>indice = 9, fecha_apertura = (2023, 1, 1), fecha_primer_pago = (2023, 2, 1),
      plazo = - 1, cuota_mensual = 1000, saldo_inicial = 12000,
      fecha_cierre = Some (2022, 12, 1)\<rparr>"

definition pagos_huerfanos :: "pago list" where
  "pagos_huerfanos =
     [\<lparr>id_credito = 99, fecha_pago = (2023, 3, 1), monto_pago = 500, saldo_posterior = 0\<rparr>]"

text \<open>The payments whose credit is a row of the credit table.\<close>

definition pagos_conocidos :: "credito list \<Rightarrow> pago list \<Rightarrow> pago list" where
  "pagos_conocidos creditos ps = filter (\<lambda>p. id_credito p \<in> indice ` set creditos) ps"

section \<open>Schedule bounds\<close>

lemmas date_simps = year_def month_def day_def days_in_month_def is_leap_def
  days_before_year_def days_before_month_def toordinal_def dias_entre_def
  ultimo_dia_mes_def inicio_mes_def inicio_mes_siguiente_def

lemma clip_bounds: "0 \<le> u \<Longrightarrow> 0 \<le> clip x 0 u \<and> clip x 0 u \<le> u"
  by (simp add: clip_def)

text \<open>
  C2. For a credit with a non-negative term and any reference date, the number of
  required installments, when it is defined, lies between 0 and the term, and it is
  undefined exactly when the reference date is before the opening date.
\<close>

theorem pagos_requeridos_range:
  assumes "0 \<le> plazo c"
  shows "(\<forall>n. pagos_requeridos c fecha = Some n \<longrightarrow> 0 \<le> n \<and> n \<le> plazo c) \<and>
         (pagos_requeridos c fecha = None \<longleftrightarrow> fecha < fecha_apertura c)"
  using assms clip_bounds [of "plazo c"]
  by (auto simp: pagos_requeridos_def Let_def not_le)

theorem pagos_requeridos_range_witness:
  "0 \<le> plazo credito_ejemplo \<and>
   pagos_requeridos credito_ejemplo (2023, 5, 15) = Some 4 \<and>
   (0::int) \<le> 4 \<and> 4 \<le> plazo credito_ejemplo \<and>
   (pagos_requeridos credito_ejemplo (2023, 5, 15) = None \<longleftrightarrow>
     (2023, 5, 15) < fecha_apertura credito_ejemplo)"
proof -
  have h: "0 \<le> plazo credito_ejemplo" by (simp add: credito_ejemplo_def)
  have v: "pagos_requeridos credito_ejemplo (2023, 5, 15) = Some 4"
    by (simp add: pagos_requeridos_def credito_ejemplo_def clip_def date_simps)
  show ?thesis using h v pagos_requeridos_range [OF h, of "(2023, 5, 15)"] by simp
qed

section \<open>The branch cascade and the threshold table\<close>

text \<open>
  C1. On every row whose status, day count and arrears count are defined, the
  two-branch cascade of \<^verbatim>\<open>logica_paridad\<close> returns the bucket that the
  specification's single ordered threshold table gives, for every reference date
  (before the opening date both give \<^verbatim>\<open>Al Corriente\<close>).
\<close>

theorem logica_paridad_refines_table:
  assumes "fila_estatus row = Some s"
    and "fila_dias_sin_pagar row = Some d"
    and "fila_atraso_pagos row = Fin a"
  shows "logica_paridad row fecha = Inr (aging_bucket_spec (fila_fecha_apertura row) s d a fecha)"
proof (cases "a \<le> 0")
  case True
  with assms show ?thesis
    by (simp add: logica_paridad_def aging_bucket_spec_def tabla_umbrales_def
        dias_gt_def atraso_ge_def flt_le_def)
next
  case False
  with assms show ?thesis
    by (simp add: logica_paridad_def aging_bucket_spec_def tabla_umbrales_def
        dias_gt_def atraso_ge_def flt_le_def)
qed

theorem logica_paridad_refines_table_witness:
  "logica_paridad
     \<lparr>fila_fecha_apertura = (2023, 1, 1), fila_estatus = Some ''Atrasado'',
      fila_dias_sin_pagar = Some 100, fila_atraso_pagos = Fin 5\<rparr> (2023, 5, 15)
   = Inr (aging_bucket_spec (2023, 1, 1) ''Atrasado'' 100 5 (2023, 5, 15)) \<and>
   aging_bucket_spec (2023, 1, 1) ''Atrasado'' 100 5 (2023, 5, 15) = ''PAR 120''"
proof -
  have "aging_bucket_spec (2023, 1, 1) ''Atrasado'' 100 5 (2023, 5, 15) = ''PAR 120''"
    by (simp add: aging_bucket_spec_def tabla_umbrales_def)
  then show ?thesis
    using logica_paridad_refines_table
      [of "\<lparr>fila_fecha_apertura = (2023, 1, 1), fila_estatus = Some ''Atrasado'',
             fila_dias_sin_pagar = Some 100, fila_atraso_pagos = Fin 5\<rparr>"
          "''Atrasado''" 100 5 "(2023, 5, 15)"]
    by simp
qed

section \<open>Threshold boundary\<close>





section \<open>The scenario without payments\<close>

text \<open>
  C4, as the code has it. For the credit opened 2023-01-01 with first payment
  2023-02-01, term 12 and installment 1000, with an empty ledger, on 2023-05-15: four
  installments are required, the required amount is 4000, the paid amount is 0, the
  status is \<^verbatim>\<open>Atrasado\<close>, 134 days have passed without payment, four installments
  are in arrears and the bucket is \<^verbatim>\<open>PAR 120\<close>.
\<close>

theorem scenario_no_payments:
  "pagos_requeridos credito_ejemplo (2023, 5, 15) = Some 4 \<and>
   monto_requerido credito_ejemplo (pagos_requeridos credito_ejemplo (2023, 5, 15)) = Some 4000 \<and>
   monto_pagado credito_ejemplo [] (2023, 5, 15) = Some 0 \<and>
   fila_credito credito_ejemplo [] (2023, 5, 15) =
     \<lparr>fila_fecha_apertura = (2023, 1, 1), fila_estatus = Some ''Atrasado'',
      fila_dias_sin_pagar = Some 134, fila_atraso_pagos = Fin 4\<rparr> \<and>
   paridad_credito credito_ejemplo [] (2023, 5, 15) = Inr ''PAR 120'' \<and>
   paridad [credito_ejemplo] [] (2023, 5, 15) = Inr [''PAR 120'']"
  by code_simp

theorem scenario_no_payments_witness:
  "fila_dias_sin_pagar (fila_credito credito_ejemplo [] (2023, 5, 15)) = Some 134 \<and>
   paridad [credito_ejemplo] [] (2023, 5, 15) = Inr [''PAR 120'']"
  using scenario_no_payments by simp

text \<open>
  Against C4 as stated: the day count of the scenario is 134, the number of days from
  2023-01-01 to 2023-05-15, and not 135.
\<close>

theorem scenario_days_counterexample:
  "dias_sin_pagar credito_ejemplo (fecha_ultimo_pago credito_ejemplo [] (2023, 5, 15)) (2023, 5, 15)
     = Some 134 \<and>
   dias_sin_pagar credito_ejemplo (fecha_ultimo_pago credito_ejemplo [] (2023, 5, 15)) (2023, 5, 15)
     \<noteq> Some 135"
  by code_simp

section \<open>Paid amount\<close>

text \<open>
  The rows that the source keeps for a credit: those that carry the credit's label and
  are dated up to the reference date, in row order.
\<close>

lemma grupo_filtrados_eq:
  "grupo c (pagos_filtrados ps fecha) =
     filter (\<lambda>p. id_credito p = indice c \<and> fecha_pago p \<le> fecha) ps"
  by (simp add: grupo_def pagos_filtrados_def conj_commute)

lemma sum_list_filter_if:
  "sum_list (map f (filter P xs)) = sum_list (map (\<lambda>x. if P x then f x else (0::rat)) xs)"
  by (induction xs) simp_all

text \<open>
  C5, as the code has it. The paid amount is undefined when the ledger has no payment of
  the credit dated up to the reference date and the reference date is before the
  opening date; it is 0 when there is no such payment and the credit has opened; and
  whenever the ledger has such payments it is the sum of exactly these payments, also
  before the opening date.
\<close>

theorem monto_pagado_cases:
  "((\<forall>p\<in>set ps. \<not> (id_credito p = indice c \<and> fecha_pago p \<le> fecha)) \<and>
      fecha < fecha_apertura c \<longrightarrow> monto_pagado c ps fecha = None) \<and>
   ((\<forall>p\<in>set ps. \<not> (id_credito p = indice c \<and> fecha_pago p \<le> fecha)) \<and>
      fecha_apertura c \<le> fecha \<longrightarrow> monto_pagado c ps fecha = Some 0) \<and>
   ((\<exists>p\<in>set ps. id_credito p = indice c \<and> fecha_pago p \<le> fecha) \<longrightarrow>
      monto_pagado c ps fecha =
        Some (sum_list (map (\<lambda>p. if id_credito p = indice c \<and> fecha_pago p \<le> fecha
                                 then monto_pago p else 0) ps)))"
proof -
  let ?Q = "\<lambda>p. id_credito p = indice c \<and> fecha_pago p \<le> fecha"
  have e: "grupo c (pagos_filtrados ps fecha) = [] \<longleftrightarrow> (\<forall>p\<in>set ps. \<not> ?Q p)"
    unfolding grupo_filtrados_eq by (rule filter_empty_conv)
  have s: "sum_list (map monto_pago (grupo c (pagos_filtrados ps fecha))) =
      sum_list (map (\<lambda>p. if ?Q p then monto_pago p else 0) ps)"
    unfolding grupo_filtrados_eq by (rule sum_list_filter_if)
  have n: "monto_pagado c ps fecha = None"
    if "(\<forall>p\<in>set ps. \<not> ?Q p) \<and> fecha < fecha_apertura c"
    using that e by (simp add: monto_pagado_def Let_def)
  have z: "monto_pagado c ps fecha = Some 0"
    if "(\<forall>p\<in>set ps. \<not> ?Q p) \<and> fecha_apertura c \<le> fecha"
  proof -
    have "\<not> fecha < fecha_apertura c" using that by (simp add: not_less)
    then show ?thesis using that e by (simp add: monto_pagado_def Let_def)
  qed
  have m: "monto_pagado c ps fecha = Some (sum_list (map (\<lambda>p. if ?Q p then monto_pago p else 0) ps))"
    if "\<exists>p\<in>set ps. ?Q p"
  proof -
    have "grupo c (pagos_filtrados ps fecha) \<noteq> []" using that e by blast
    then show ?thesis by (simp add: monto_pagado_def Let_def s)
  qed
  show ?thesis using n z m by blast
qed

theorem monto_pagado_cases_witness:
  "monto_pagado credito_futuro pagos_orden (2023, 3, 15) = None \<and>
   monto_pagado credito_ejemplo pagos_orden (2023, 2, 15) = Some 0 \<and>
   monto_pagado credito_ejemplo pagos_orden (2023, 3, 15) = Some 1000 \<and>
   monto_pagado credito_ejemplo pagos_orden (2023, 6, 15) = Some 2000"
proof -
  have a: "(\<forall>p\<in>set pagos_orden.
        \<not> (id_credito p = indice credito_futuro \<and> fecha_pago p \<le> (2023, 3, 15))) \<and>
      (2023, 3, 15) < fecha_apertura credito_futuro"
    by (simp add: pagos_orden_def credito_futuro_def)
  have b: "(\<forall>p\<in>set pagos_orden.
        \<not> (id_credito p = indice credito_ejemplo \<and> fecha_pago p \<le> (2023, 2, 15))) \<and>
      fecha_apertura credito_ejemplo \<le> (2023, 2, 15)"
    by (simp add: pagos_orden_def credito_ejemplo_def)
  have c: "\<exists>p\<in>set pagos_orden.
      id_credito p = indice credito_ejemplo \<and> fecha_pago p \<le> (2023, 3, 15)"
    by (simp add: pagos_orden_def credito_ejemplo_def)
  have d: "\<exists>p\<in>set pagos_orden.
      id_credito p = indice credito_ejemplo \<and> fecha_pago p \<le> (2023, 6, 15)"
    by (simp add: pagos_orden_def credito_ejemplo_def)
  have c': "sum_list (map (\<lambda>p. if id_credito p = indice credito_ejemplo \<and>
        fecha_pago p \<le> (2023, 3, 15) then monto_pago p else 0) pagos_orden) = 1000"
    by (simp add: pagos_orden_def credito_ejemplo_def)
  have d': "sum_list (map (\<lambda>p. if id_credito p = indice credito_ejemplo \<and>
        fecha_pago p \<le> (2023, 6, 15) then monto_pago p else 0) pagos_orden) = 2000"
    by (simp add: pagos_orden_def credito_ejemplo_def)
  have 1: "monto_pagado credito_futuro pagos_orden (2023, 3, 15) = None"
    using monto_pagado_cases [of pagos_orden credito_futuro "(2023, 3, 15)"] a by blast
  have 2: "monto_pagado credito_ejemplo pagos_orden (2023, 2, 15) = Some 0"
    using monto_pagado_cases [of pagos_orden credito_ejemplo "(2023, 2, 15)"] b by blast
  have 3: "monto_pagado credito_ejemplo pagos_orden (2023, 3, 15) = Some 1000"
    using monto_pagado_cases [of pagos_orden credito_ejemplo "(2023, 3, 15)"] c
    unfolding c' by blast
  have 4: "monto_pagado credito_ejemplo pagos_orden (2023, 6, 15) = Some 2000"
    using monto_pagado_cases [of pagos_orden credito_ejemplo "(2023, 6, 15)"] d
    unfolding d' by blast
  show ?thesis using 1 2 3 4 by simp
qed

text \<open>
  Against C5 as stated: on 2023-03-01 the credit that opens on 2023-06-01 has a payment
  of 500 dated 2023-01-10, and its paid amount is 500, not undefined. The payment of
  300 dated 2023-04-10 and the payment of the other credit do not count.
\<close>

theorem monto_pagado_unopened_counterexample:
  "(2023, 3, 1) < fecha_apertura credito_futuro \<and>
   monto_pagado credito_futuro pagos_anticipados (2023, 3, 1) = Some 500 \<and>
   monto_pagado credito_futuro pagos_anticipados (2023, 3, 1) \<noteq> None"
  by (simp add: monto_pagado_def grupo_def pagos_filtrados_def credito_futuro_def
      pagos_anticipados_def)

section \<open>Reporting window\<close>

lemma inicio_mes_less:
  "inicio_mes fecha < z \<longleftrightarrow>
     year fecha < year z \<or> year fecha = year z \<and>
       (month fecha < month z \<or> month fecha = month z \<and> 1 < day z)"
  by (cases z; cases fecha) (auto simp: inicio_mes_def year_def month_def day_def)

text \<open>
  C7, as the code has it. \<^verbatim>\<open>considerar\<close> keeps a credit exactly when the start of
  the month after its opening is not after the start of the reference month and the
  start of the reference month is before the closing date (2200-12-31 when there is
  none). So a closed credit is kept in the month of its closing date, the window
  permitting, exactly when the closing date is not the first day of that month, and it
  is dropped in every later month.
\<close>

theorem considerar_window:
  "(c \<in> set (considerar creditos fecha) \<longleftrightarrow>
      c \<in> set creditos \<and> inicio_mes_siguiente (fecha_apertura c) \<le> inicio_mes fecha \<and>
      inicio_mes fecha < (case fecha_cierre c of None \<Rightarrow> (2200, 12, 31) | Some z \<Rightarrow> z)) \<and>
   (\<forall>z. fecha_cierre c = Some z \<and> year fecha = year z \<and> month fecha = month z \<longrightarrow>
      (c \<in> set (considerar creditos fecha) \<longleftrightarrow>
         c \<in> set creditos \<and> inicio_mes_siguiente (fecha_apertura c) \<le> inicio_mes fecha \<and>
         1 < day z)) \<and>
   (\<forall>z. fecha_cierre c = Some z \<and>
        (year z < year fecha \<or> year z = year fecha \<and> month z < month fecha) \<longrightarrow>
      c \<notin> set (considerar creditos fecha))"
proof -
  have mem: "c \<in> set (considerar creditos fecha) \<longleftrightarrow>
      c \<in> set creditos \<and> inicio_mes_siguiente (fecha_apertura c) \<le> inicio_mes fecha \<and>
      inicio_mes fecha < (case fecha_cierre c of None \<Rightarrow> (2200, 12, 31) | Some z \<Rightarrow> z)"
    by (simp add: considerar_def considerar_credito_def Let_def fecha_maxima_def
        split: option.split)
  have same: "c \<in> set (considerar creditos fecha) \<longleftrightarrow>
      c \<in> set creditos \<and> inicio_mes_siguiente (fecha_apertura c) \<le> inicio_mes fecha \<and> 1 < day z"
    if "fecha_cierre c = Some z \<and> year fecha = year z \<and> month fecha = month z" for z
    using that by (simp add: mem inicio_mes_less)
  have later: "c \<notin> set (considerar creditos fecha)"
    if "fecha_cierre c = Some z \<and>
        (year z < year fecha \<or> year z = year fecha \<and> month z < month fecha)" for z
    using that by (auto simp: mem inicio_mes_less)
  show ?thesis using mem same later by blast
qed

theorem considerar_window_witness:
  "considerar [credito_cerrado (2023, 3, 1)] (2023, 3, 20) = [] \<and>
   considerar [credito_cerrado (2023, 3, 1)] (2023, 2, 20) = [credito_cerrado (2023, 3, 1)] \<and>
   considerar [credito_cerrado (2023, 3, 1)] (2023, 4, 20) = []"
proof -
  let ?c = "credito_cerrado (2023, 3, 1)"
  have "?c \<notin> set (considerar [?c] (2023, 3, 20))"
    using considerar_window [of ?c "[?c]" "(2023, 3, 20)"]
    by (simp add: credito_cerrado_def date_simps)
  moreover have "?c \<in> set (considerar [?c] (2023, 2, 20))"
    using considerar_window [of ?c "[?c]" "(2023, 2, 20)"]
    by (simp add: credito_cerrado_def date_simps)
  moreover have "?c \<notin> set (considerar [?c] (2023, 4, 20))"
    using considerar_window [of ?c "[?c]" "(2023, 4, 20)"]
    by (simp add: credito_cerrado_def date_simps)
  ultimately show ?thesis
    by (simp add: considerar_def split: if_splits)
qed

text \<open>
  Against C7 as stated: a credit closed on 2023-03-15 is kept for the reporting month
  2023-03, the month its closing date falls in.
\<close>

theorem considerar_closing_month_counterexample:
  "fecha_cierre (credito_cerrado (2023, 3, 15)) = Some (2023, 3, 15) \<and>
   inicio_mes (2023, 3, 20) = inicio_mes (2023, 3, 15) \<and>
   considerar [credito_cerrado (2023, 3, 15)] (2023, 3, 20) = [credito_cerrado (2023, 3, 15)]"
  by (simp add: considerar_def considerar_credito_def credito_cerrado_def date_simps)

text \<open>
  C9. For a credit without closing date the fixed date 2200-12-31 stands for the end of
  the window: the credit is kept exactly when the window has started and the start of
  the reference month is before 2200-12-31, and it is dropped in every reference month
  that starts on or after 2200-12-31.
\<close>

theorem considerar_sin_cierre:
  assumes "fecha_cierre c = None"
  shows "(c \<in> set (considerar creditos fecha) \<longleftrightarrow>
           c \<in> set creditos \<and> inicio_mes_siguiente (fecha_apertura c) \<le> inicio_mes fecha \<and>
           inicio_mes fecha < (2200, 12, 31)) \<and>
         ((2200, 12, 31) \<le> inicio_mes fecha \<longrightarrow> c \<notin> set (considerar creditos fecha))"
  using assms
  by (auto simp: considerar_def considerar_credito_def Let_def fecha_maxima_def)

theorem considerar_sin_cierre_witness:
  "fecha_cierre credito_ejemplo = None \<and>
   considerar [credito_ejemplo] (2200, 12, 15) = [credito_ejemplo] \<and>
   (2200, 12, 31) \<le> inicio_mes (2201, 1, 15) \<and>
   considerar [credito_ejemplo] (2201, 1, 15) = []"
proof -
  have h: "fecha_cierre credito_ejemplo = None" by (simp add: credito_ejemplo_def)
  have "credito_ejemplo \<in> set (considerar [credito_ejemplo] (2200, 12, 15))"
    using considerar_sin_cierre [OF h, of "[credito_ejemplo]" "(2200, 12, 15)"]
    by (simp add: credito_ejemplo_def date_simps)
  moreover have "credito_ejemplo \<notin> set (considerar [credito_ejemplo] (2201, 1, 15))"
    using considerar_sin_cierre [OF h, of "[credito_ejemplo]" "(2201, 1, 15)"]
    by (simp add: credito_ejemplo_def date_simps)
  ultimately show ?thesis using h
    by (simp add: considerar_def date_simps split: if_splits)
qed

section \<open>The last payment is the last row\<close>









section \<open>The entry points on faulty inputs\<close>

lemma estatus_defined: "estatus (Some r) (Some p) \<noteq> None"
  by (auto simp: estatus_def Let_def)

lemma monto_pagado_opened:
  "fecha_apertura c \<le> fecha \<Longrightarrow> \<exists>p. monto_pagado c ps fecha = Some p"
  by (auto simp: monto_pagado_def Let_def dest: leD)

lemma logica_paridad_estatus:
  "fila_estatus row = Some e \<Longrightarrow> \<exists>b. logica_paridad row fecha = Inr b"
  by (simp add: logica_paridad_def)

lemma logica_paridad_unopened:
  "fecha < fila_fecha_apertura row \<Longrightarrow> logica_paridad row fecha = Inr ''Al Corriente''"
  by (simp add: logica_paridad_def)

lemma paridad_credito_total: "\<exists>b. paridad_credito c ps fecha = Inr b"
proof (cases "fecha < fecha_apertura c")
  case True
  then show ?thesis
    by (simp add: paridad_credito_def fila_credito_def Let_def logica_paridad_unopened)
next
  case False
  then have op: "fecha_apertura c \<le> fecha" by simp
  then obtain p where p: "monto_pagado c ps fecha = Some p"
    using monto_pagado_opened by blast
  from op obtain n where n: "pagos_requeridos c fecha = Some n"
    by (simp add: pagos_requeridos_def Let_def)
  have "fila_estatus (fila_credito c ps fecha) \<noteq> None"
    by (simp add: fila_credito_def Let_def p n monto_requerido_def estatus_defined)
  then obtain e where "fila_estatus (fila_credito c ps fecha) = Some e" by blast
  then show ?thesis
    unfolding paridad_credito_def by (rule logica_paridad_estatus)
qed

lemma aplicar_total:
  "(\<And>x. x \<in> set xs \<Longrightarrow> \<exists>y. f x = Inr y) \<Longrightarrow>
   \<exists>ys. aplicar f xs = Inr ys \<and> length ys = length xs"
proof (induction xs)
  case Nil
  then show ?case by simp
next
  case (Cons x xs)
  from Cons.prems obtain y where y: "f x = Inr y" by auto
  from Cons obtain ys where "aplicar f xs = Inr ys \<and> length ys = length xs" by auto
  with y show ?case by simp
qed

lemma aplicar_cong:
  "(\<And>x. x \<in> set xs \<Longrightarrow> f x = g x) \<Longrightarrow> aplicar f xs = aplicar g xs"
proof (induction xs)
  case Nil
  then show ?case by simp
next
  case (Cons x xs)
  have "f x = g x" using Cons.prems by simp
  moreover have "aplicar f xs = aplicar g xs" using Cons by simp
  ultimately show ?case by (simp split: sum.split)
qed

lemma paridad_total: "\<exists>bs. paridad cs ps fecha = Inr bs \<and> length bs = length cs"
  unfolding paridad_def by (rule aplicar_total) (rule paridad_credito_total)

lemma grupo_conocidos:
  assumes "c \<in> set cs"
  shows "grupo c (pagos_filtrados (pagos_conocidos cs ps) fecha) = grupo c (pagos_filtrados ps fecha)"
proof -
  have "indice c \<in> indice ` set cs" using assms by simp
  then show ?thesis
    unfolding grupo_def pagos_filtrados_def pagos_conocidos_def filter_filter
    by (intro filter_cong refl) auto
qed

lemma paridad_credito_conocidos:
  assumes "c \<in> set cs"
  shows "paridad_credito c (pagos_conocidos cs ps) fecha = paridad_credito c ps fecha"
  by (simp add: paridad_credito_def fila_credito_def monto_pagado_def fecha_ultimo_pago_def
      grupo_conocidos [OF assms])

lemma paridad_conocidos: "paridad cs (pagos_conocidos cs ps) fecha = paridad cs ps fecha"
  unfolding paridad_def by (rule aplicar_cong) (rule paridad_credito_conocidos)

lemma saldo_conocidos: "saldo cs (pagos_conocidos cs ps) fecha = saldo cs ps fecha"
  by (simp add: saldo_def saldo_credito_def grupo_conocidos cong: map_cong)

lemma apertura_less_inicio_siguiente: "d < inicio_mes_siguiente d"
  by (cases d) (auto simp: inicio_mes_siguiente_def year_def month_def)

lemma considerar_cierre_previo:
  assumes "fecha_cierre c = Some z" and "z < fecha_apertura c"
  shows "c \<notin> set (considerar cs fecha)"
proof
  assume "c \<in> set (considerar cs fecha)"
  then have "inicio_mes_siguiente (fecha_apertura c) \<le> inicio_mes fecha"
    and "inicio_mes fecha < z"
    using assms(1) by (simp_all add: considerar_def considerar_credito_def Let_def)
  then have "inicio_mes_siguiente (fecha_apertura c) < fecha_apertura c"
    using assms(2) by (meson le_less_trans less_trans)
  then show False
    using apertura_less_inicio_siguiente [of "fecha_apertura c"] by (meson less_asym)
qed

text \<open>
  C8, as the code has it. No entry point checks its input. On every credit table,
  ledger and reference date, \<^verbatim>\<open>paridad\<close> and \<^verbatim>\<open>paridad_inicial\<close> return one
  bucket per credit and raise nothing, \<^verbatim>\<open>saldo\<close> and \<^verbatim>\<open>saldo_inicial\<close> return one
  balance per credit, payments of credits that are not in the credit table change no
  result, and \<^verbatim>\<open>considerar\<close> leaves out every credit whose closing date is before
  its opening date.
\<close>

theorem entry_points_no_validation:
  "(\<exists>bs. paridad cs ps fecha = Inr bs \<and> length bs = length cs) \<and>
   (\<exists>bs. paridad_inicial cs ps fecha = Inr bs \<and> length bs = length cs) \<and>
   length (saldo cs ps fecha) = length cs \<and>
   length (saldo_inicial_mes cs ps fecha) = length cs \<and>
   paridad cs (pagos_conocidos cs ps) fecha = paridad cs ps fecha \<and>
   paridad_inicial cs (pagos_conocidos cs ps) fecha = paridad_inicial cs ps fecha \<and>
   saldo cs (pagos_conocidos cs ps) fecha = saldo cs ps fecha \<and>
   saldo_inicial_mes cs (pagos_conocidos cs ps) fecha = saldo_inicial_mes cs ps fecha \<and>
   (\<forall>c z. fecha_cierre c = Some z \<and> z < fecha_apertura c \<longrightarrow> c \<notin> set (considerar cs fecha))"
proof -
  have a: "\<exists>bs. paridad cs ps fecha = Inr bs \<and> length bs = length cs"
    by (rule paridad_total)
  have b: "\<exists>bs. paridad_inicial cs ps fecha = Inr bs \<and> length bs = length cs"
    unfolding paridad_inicial_def by (rule paridad_total)
  have c: "length (saldo cs ps fecha) = length cs" by (simp add: saldo_def)
  have d: "length (saldo_inicial_mes cs ps fecha) = length cs"
    by (simp add: saldo_inicial_mes_def saldo_def)
  have e: "paridad cs (pagos_conocidos cs ps) fecha = paridad cs ps fecha"
    by (rule paridad_conocidos)
  have f: "paridad_inicial cs (pagos_conocidos cs ps) fecha = paridad_inicial cs ps fecha"
    unfolding paridad_inicial_def by (rule paridad_conocidos)
  have g: "saldo cs (pagos_conocidos cs ps) fecha = saldo cs ps fecha"
    by (rule saldo_conocidos)
  have h: "saldo_inicial_mes cs (pagos_conocidos cs ps) fecha = saldo_inicial_mes cs ps fecha"
    unfolding saldo_inicial_mes_def by (rule saldo_conocidos)
  have i: "\<forall>c z. fecha_cierre c = Some z \<and> z < fecha_apertura c \<longrightarrow>
      c \<notin> set (considerar cs fecha)"
    using considerar_cierre_previo by blast
  show ?thesis
    by (rule conjI [OF a conjI [OF b conjI [OF c conjI [OF d conjI [OF e
         conjI [OF f conjI [OF g conjI [OF h i]]]]]]]])
qed

text \<open>The results of the entry points on the faulty example input.\<close>

lemma defectuoso_values:
  shows "paridad [credito_defectuoso] pagos_huerfanos (2023, 5, 15) = Inr [''Al Corriente'']"
    and "paridad_inicial [credito_defectuoso] pagos_huerfanos (2023, 5, 15) = Inr [''Al Corriente'']"
    and "saldo [credito_defectuoso] pagos_huerfanos (2023, 5, 15) = [12000]"
    and "saldo_inicial_mes [credito_defectuoso] pagos_huerfanos (2023, 5, 15) = [12000]"
    and "considerar [credito_defectuoso] (2023, 5, 15) = []"
    and "pagos_conocidos [credito_defectuoso] pagos_huerfanos = []"
  by code_simp+

text \<open>
  Against C8 as stated: for a credit with a negative term and a closing date before its
  opening date, and a ledger whose payment names no credit of the table, every entry
  point returns an ordinary result.
\<close>

theorem no_validation_counterexample:
  "plazo credito_defectuoso < 0 \<and>
   fecha_cierre credito_defectuoso = Some (2022, 12, 1) \<and>
   (2022, 12, 1) < fecha_apertura credito_defectuoso \<and>
   map id_credito pagos_huerfanos = [99] \<and> indice credito_defectuoso = 9 \<and>
   paridad [credito_defectuoso] pagos_huerfanos (2023, 5, 15) = Inr [''Al Corriente''] \<and>
   paridad_inicial [credito_defectuoso] pagos_huerfanos (2023, 5, 15) = Inr [''Al Corriente''] \<and>
   saldo [credito_defectuoso] pagos_huerfanos (2023, 5, 15) = [12000] \<and>
   saldo_inicial_mes [credito_defectuoso] pagos_huerfanos (2023, 5, 15) = [12000] \<and>
   considerar [credito_defectuoso] (2023, 5, 15) = []"
  by (simp add: defectuoso_values) (simp add: credito_defectuoso_def pagos_huerfanos_def)

theorem entry_points_no_validation_witness:
  "fecha_cierre credito_defectuoso = Some (2022, 12, 1) \<and>
   (2022, 12, 1) < fecha_apertura credito_defectuoso \<and>
   credito_defectuoso \<notin> set (considerar [credito_defectuoso] (2023, 5, 15)) \<and>
   paridad [credito_defectuoso] [] (2023, 5, 15) =
     paridad [credito_defectuoso] pagos_huerfanos (2023, 5, 15) \<and>
   saldo [credito_defectuoso] [] (2023, 5, 15) =
     saldo [credito_defectuoso] pagos_huerfanos (2023, 5, 15)"
proof -
  note t = entry_points_no_validation [of "[credito_defectuoso]" pagos_huerfanos "(2023, 5, 15)"]
  have h: "fecha_cierre credito_defectuoso = Some (2022, 12, 1) \<and>
      (2022, 12, 1) < fecha_apertura credito_defectuoso"
    by (simp add: credito_defectuoso_def)
  have a: "credito_defectuoso \<notin> set (considerar [credito_defectuoso] (2023, 5, 15))"
    using t h by blast
  have b: "paridad [credito_defectuoso] (pagos_conocidos [credito_defectuoso] pagos_huerfanos)
        (2023, 5, 15) = paridad [credito_defectuoso] pagos_huerfanos (2023, 5, 15)"
    and c: "saldo [credito_defectuoso] (pagos_conocidos [credito_defectuoso] pagos_huerfanos)
        (2023, 5, 15) = saldo [credito_defectuoso] pagos_huerfanos (2023, 5, 15)"
    using t by blast+
  show ?thesis
    using h a b c by (simp add: defectuoso_values(6))
qed

section \<open>Day numbers follow the order of dates\<close>

lemma div_step:
  fixes a b :: int
  assumes "a \<le> b"
  shows "b div 100 - a div 100 \<le> b - a"
proof -
  have "100 * (b div 100) \<le> b" by simp
  moreover have "a < 100 * (a div 100) + 100"
    using pos_mod_bound [of 100 a] mult_div_mod_eq [of 100 a] by linarith
  ultimately show ?thesis using assms by linarith
qed

lemma lin_aux:
  fixes n n' p p' q q' r r' :: int
  shows "p \<le> p' \<Longrightarrow> r \<le> r' \<Longrightarrow> q' - q \<le> n' - n \<Longrightarrow> n \<le> n' \<Longrightarrow>
    n * 365 + p - q + r \<le> n' * 365 + p' - q' + r'"
  by linarith

lemma days_before_year_mono:
  assumes "a \<le> b"
  shows "days_before_year a \<le> days_before_year b"
proof -
  have 1: "(a - 1) div 4 \<le> (b - 1) div 4" using assms by (simp add: zdiv_mono1)
  have 2: "(a - 1) div 400 \<le> (b - 1) div 400" using assms by (simp add: zdiv_mono1)
  have 3: "(b - 1) div 100 - (a - 1) div 100 \<le> (b - 1) - (a - 1)"
    using assms by (intro div_step) simp
  have 4: "a - 1 \<le> b - 1" using assms by simp
  show ?thesis unfolding days_before_year_def by (rule lin_aux [OF 1 2 3 4])
qed

lemma div_pred:
  fixes y k :: int
  assumes "0 < k"
  shows "y div k = (y - 1) div k + (if y mod k = 0 then 1 else 0)"
proof (cases "y mod k = 0")
  case True
  have "y - 1 = k * (y div k - 1) + (k - 1)"
    using mult_div_mod_eq [of k y] True by (simp add: algebra_simps)
  then have "(y - 1) div k = y div k - 1"
    using assms by (intro int_div_pos_eq [where r = "k - 1"]) simp_all
  with True show ?thesis by simp
next
  case False
  have r: "0 \<le> y mod k" "y mod k < k" using assms by simp_all
  have "y - 1 = k * (y div k) + (y mod k - 1)"
    using mult_div_mod_eq [of k y] by simp
  then have "(y - 1) div k = y div k"
    using assms r False by (intro int_div_pos_eq [where r = "y mod k - 1"]) simp_all
  with False show ?thesis by simp
qed

lemma step_aux:
  fixes n p q r d4 d100 d400 :: int
  shows "n * 365 + (p + d4) - (q + d100) + (r + d400) =
    (n - 1) * 365 + p - q + r + (365 + d4 - d100 + d400)"
  by (simp add: algebra_simps)

lemma days_before_year_succ:
  "days_before_year (y + 1) =
     days_before_year y +
     (365 + (if y mod 4 = 0 then 1 else 0) - (if y mod 100 = 0 then 1 else 0) +
       (if y mod 400 = 0 then 1 else 0))"
proof -
  have d4: "y div 4 = (y - 1) div 4 + (if y mod 4 = 0 then 1 else 0)"
    by (rule div_pred) simp
  have d100: "y div 100 = (y - 1) div 100 + (if y mod 100 = 0 then 1 else 0)"
    by (rule div_pred) simp
  have d400: "y div 400 = (y - 1) div 400 + (if y mod 400 = 0 then 1 else 0)"
    by (rule div_pred) simp
  have "days_before_year (y + 1) = y * 365 + y div 4 - y div 100 + y div 400"
    by (simp only: days_before_year_def add_diff_cancel_right')
  also have "\<dots> = y * 365 + ((y - 1) div 4 + (if y mod 4 = 0 then 1 else 0)) -
        ((y - 1) div 100 + (if y mod 100 = 0 then 1 else 0)) +
        ((y - 1) div 400 + (if y mod 400 = 0 then 1 else 0))"
    by (simp only: d4 [symmetric] d100 [symmetric] d400 [symmetric])
  also have "\<dots> = days_before_year y +
     (365 + (if y mod 4 = 0 then 1 else 0) - (if y mod 100 = 0 then 1 else 0) +
       (if y mod 400 = 0 then 1 else 0))"
    unfolding days_before_year_def by (rule step_aux)
  finally show ?thesis .
qed

lemma mod_chain:
  fixes y :: int
  shows "y mod 400 = 0 \<Longrightarrow> y mod 100 = 0" and "y mod 100 = 0 \<Longrightarrow> y mod 4 = 0"
  using mod_mod_cancel [of 100 400 y] mod_mod_cancel [of 4 100 y] by simp_all

lemma leap_delta:
  "(if is_leap y then 366 else 365) =
   365 + (if y mod 4 = 0 then 1 else 0) - (if y mod 100 = 0 then 1 else 0) +
     (if y mod 400 = 0 then (1::int) else 0)"
proof (cases "y mod 4 = 0")
  case False
  then have "y mod 100 \<noteq> 0" by (metis mod_chain(2))
  then have "y mod 400 \<noteq> 0" by (metis mod_chain(1))
  note \<open>y mod 100 \<noteq> 0\<close> this
  with False show ?thesis by (simp add: is_leap_def)
next
  case True
  show ?thesis
  proof (cases "y mod 100 = 0")
    case False
    then have "y mod 400 \<noteq> 0" by (metis mod_chain(1))
    with True False show ?thesis by (simp add: is_leap_def)
  next
    case h: True
    show ?thesis
    proof (cases "y mod 400 = 0")
      case True
      with h \<open>y mod 4 = 0\<close> show ?thesis by (simp add: is_leap_def)
    next
      case False
      with h \<open>y mod 4 = 0\<close> show ?thesis by (simp add: is_leap_def)
    qed
  qed
qed

lemma days_before_year_step:
  "days_before_year (y + 1) = days_before_year y + (if is_leap y then 366 else 365)"
  by (simp only: days_before_year_succ leap_delta)

lemma month_cases:
  fixes m :: int
  assumes "1 \<le> m" and "m \<le> 12"
  shows "m = 1 \<or> m = 2 \<or> m = 3 \<or> m = 4 \<or> m = 5 \<or> m = 6 \<or> m = 7 \<or> m = 8 \<or> m = 9 \<or>
    m = 10 \<or> m = 11 \<or> m = 12"
  using assms by arith

lemma days_before_month_nonneg: "0 \<le> days_before_month y m"
  by (simp add: days_before_month_def)

lemma day_of_year_le:
  assumes "valid_date d"
  shows "days_before_month (year d) (month d) + day d \<le> (if is_leap (year d) then 366 else 365)"
proof -
  have b: "day d \<le> days_in_month (year d) (month d)"
    using assms by (simp add: valid_date_def)
  have "1 \<le> month d" "month d \<le> 12" using assms by (simp_all add: valid_date_def)
  then have "month d = 1 \<or> month d = 2 \<or> month d = 3 \<or> month d = 4 \<or> month d = 5 \<or>
    month d = 6 \<or> month d = 7 \<or> month d = 8 \<or> month d = 9 \<or> month d = 10 \<or>
    month d = 11 \<or> month d = 12"
    by (rule month_cases)
  then show ?thesis
    using b by (elim disjE) (auto simp: days_before_month_def days_in_month_def split: if_splits)
qed

lemma days_before_month_next:
  assumes "1 \<le> m1" and "m1 < m2" and "m2 \<le> 12"
  shows "days_before_month y m1 + days_in_month y m1 \<le> days_before_month y m2"
proof -
  have "m1 \<le> 12" using assms by simp
  with assms(1) have "m1 = 1 \<or> m1 = 2 \<or> m1 = 3 \<or> m1 = 4 \<or> m1 = 5 \<or> m1 = 6 \<or> m1 = 7 \<or>
    m1 = 8 \<or> m1 = 9 \<or> m1 = 10 \<or> m1 = 11 \<or> m1 = 12"
    by (rule month_cases)
  then show ?thesis
    using assms(2,3) by (elim disjE) (simp_all add: days_before_month_def days_in_month_def)
qed

lemma date_le_iff:
  "d1 \<le> d2 \<longleftrightarrow>
     year d1 < year d2 \<or>
     year d1 = year d2 \<and> (month d1 < month d2 \<or> month d1 = month d2 \<and> day d1 \<le> day d2)"
  by (cases d1; cases d2) (auto simp: year_def month_def day_def)

lemma toordinal_mono:
  assumes "valid_date d1" and "valid_date d2" and "d1 \<le> d2"
  shows "toordinal d1 \<le> toordinal d2"
proof -
  have v1: "1 \<le> month d1" "day d1 \<le> days_in_month (year d1) (month d1)"
    using assms(1) by (simp_all add: valid_date_def)
  have v2: "month d2 \<le> 12" "1 \<le> day d2"
    using assms(2) by (simp_all add: valid_date_def)
  consider (y) "year d1 < year d2"
    | (m) "year d1 = year d2" "month d1 < month d2"
    | (d) "year d1 = year d2" "month d1 = month d2" "day d1 \<le> day d2"
    using assms(3) by (auto simp: date_le_iff)
  then show ?thesis
  proof cases
    case y
    have "toordinal d1 \<le> days_before_year (year d1 + 1)"
      using day_of_year_le [OF assms(1)]
      by (simp add: toordinal_def days_before_year_step)
    also have "\<dots> \<le> days_before_year (year d2)"
      using y by (intro days_before_year_mono) simp
    also have "\<dots> \<le> toordinal d2"
      using v2(2) days_before_month_nonneg [of "year d2" "month d2"]
      by (simp add: toordinal_def)
    finally show ?thesis .
  next
    case m
    have "days_before_month (year d1) (month d1) + days_in_month (year d1) (month d1)
        \<le> days_before_month (year d1) (month d2)"
      using v1(1) m(2) v2(1) by (rule days_before_month_next)
    then show ?thesis using v1(2) v2(2) m(1) by (simp add: toordinal_def)
  next
    case d
    then show ?thesis by (simp add: toordinal_def)
  qed
qed

section \<open>Monotonicity in the reference date\<close>

lemma es_ultimo_iff: "d = ultimo_dia_mes d \<longleftrightarrow> day d = days_in_month (year d) (month d)"
  by (cases d) (auto simp: ultimo_dia_mes_def year_def month_def day_def)

lemma meses_mono:
  assumes "valid_date d1" and "valid_date d2" and "d1 \<le> d2"
  shows "year d1 * 12 + month d1 - (if d1 \<noteq> ultimo_dia_mes d1 \<and> day d1 < k then 1 else 0)
       \<le> year d2 * 12 + month d2 - (if d2 \<noteq> ultimo_dia_mes d2 \<and> day d2 < k then (1::int) else 0)"
proof -
  have v1: "1 \<le> month d1" "month d1 \<le> 12"
    using assms(1) by (simp_all add: valid_date_def)
  have v2: "1 \<le> month d2" "month d2 \<le> 12" "day d2 \<le> days_in_month (year d2) (month d2)"
    using assms(2) by (simp_all add: valid_date_def)
  consider (y) "year d1 < year d2"
    | (m) "year d1 = year d2" "month d1 < month d2"
    | (d) "year d1 = year d2" "month d1 = month d2" "day d1 \<le> day d2"
    using assms(3) by (auto simp: date_le_iff)
  then show ?thesis
  proof cases
    case y
    then show ?thesis using v1 v2 by (simp split: if_splits)
  next
    case m
    then show ?thesis using v1 v2 by (simp split: if_splits)
  next
    case d
    then show ?thesis using v2(3) by (auto simp: es_ultimo_iff)
  qed
qed

lemma clip_mono: "0 \<le> u \<Longrightarrow> x \<le> x' \<Longrightarrow> clip x 0 u \<le> clip x' 0 u"
  by (auto simp: clip_def)

lemma pagos_requeridos_eq:
  "pagos_requeridos c d =
     (if fecha_apertura c \<le> d
      then Some (clip ((year d - year (fecha_primer_pago c)) * 12 +
        (month d - month (fecha_primer_pago c)) -
        (if d \<noteq> ultimo_dia_mes d \<and> day d < day (fecha_primer_pago c) then 1 else 0) + 1)
        0 (plazo c))
      else None)"
  by (simp only: pagos_requeridos_def Let_def)

lemma pagos_requeridos_mono:
  assumes "valid_date d1" and "valid_date d2" and "d1 \<le> d2" and "0 \<le> plazo c"
    and "pagos_requeridos c d1 = Some n1" and "pagos_requeridos c d2 = Some n2"
  shows "n1 \<le> n2"
proof -
  let ?k = "day (fecha_primer_pago c)"
  let ?r = "\<lambda>d. (year d - year (fecha_primer_pago c)) * 12 +
      (month d - month (fecha_primer_pago c)) -
      (if d \<noteq> ultimo_dia_mes d \<and> day d < ?k then 1 else 0) + 1"
  have n1: "n1 = clip (?r d1) 0 (plazo c)"
    using assms(5) unfolding pagos_requeridos_eq [of c d1]
    by (cases "fecha_apertura c \<le> d1") (simp_all only: if_True if_False option.inject option.distinct)
  have n2: "n2 = clip (?r d2) 0 (plazo c)"
    using assms(6) unfolding pagos_requeridos_eq [of c d2]
    by (cases "fecha_apertura c \<le> d2") (simp_all only: if_True if_False option.inject option.distinct)
  have "?r d1 \<le> ?r d2"
    using meses_mono [OF assms(1-3), of ?k] by (simp add: algebra_simps)
  then show ?thesis unfolding n1 n2 using assms(4) by (intro clip_mono)
qed

lemma grupo_same:
  assumes "d1 \<le> d2"
    and "\<forall>p\<in>set ps. id_credito p = indice c \<longrightarrow> \<not> (d1 < fecha_pago p \<and> fecha_pago p \<le> d2)"
  shows "grupo c (pagos_filtrados ps d1) = grupo c (pagos_filtrados ps d2)"
  unfolding grupo_def pagos_filtrados_def filter_filter
proof (rule filter_cong [OF refl])
  fix p assume p: "p \<in> set ps"
  show "(fecha_pago p \<le> d1 \<and> id_credito p = indice c) \<longleftrightarrow>
        (fecha_pago p \<le> d2 \<and> id_credito p = indice c)"
    using assms(1) assms(2) [rule_format, OF p] by (auto simp: not_less)
qed

lemma dias_mono:
  assumes "valid_date d1" and "valid_date d2" and "d1 \<le> d2"
    and "dias_sin_pagar c u d1 = Some x" and "dias_sin_pagar c u d2 = Some y"
  shows "x \<le> y"
proof -
  have t: "toordinal d1 \<le> toordinal d2" using assms(1-3) by (rule toordinal_mono)
  show ?thesis
  proof (cases u)
    case None
    with assms(4,5) t show ?thesis
      by (auto simp: dias_sin_pagar_def dias_entre_def split: if_splits)
  next
    case (Some v)
    with assms(4,5) t show ?thesis
      by (auto simp: dias_sin_pagar_def dias_entre_def)
  qed
qed

lemma atraso_NaN_iff:
  "atraso_pagos c r m = NaN \<longleftrightarrow> r = None \<or> pagos_realizados c m = NaN"
  by (simp add: atraso_pagos_def split: option.split flt.split)

lemma atraso_mono:
  assumes "n1 \<le> n2" and "atraso_pagos c (Some n1) m \<noteq> NaN"
  shows "flt_le (atraso_pagos c (Some n1) m) (atraso_pagos c (Some n2) m)"
  using assms by (cases "pagos_realizados c m") (simp_all add: atraso_pagos_def flt_le_def)

lemma monto_pagado_same:
  assumes "grupo c (pagos_filtrados ps d1) = grupo c (pagos_filtrados ps d2)"
    and "fecha_apertura c \<le> d1" and "fecha_apertura c \<le> d2"
  shows "monto_pagado c ps d1 = monto_pagado c ps d2"
  using assms by (simp add: monto_pagado_def Let_def not_less [symmetric])

text \<open>
  C6, as the code has it. For a credit with a non-negative term, a ledger, and two calendar dates
  \<open>d1 \<le> d2\<close> such that no payment of the credit is dated after \<open>d1\<close> and up to
  \<open>d2\<close>: the days without payment at \<open>d2\<close> are at least those at \<open>d1\<close>, and the
  arrears count at \<open>d2\<close> is at least that at \<open>d1\<close>, whenever both values are defined.
\<close>

theorem dias_atraso_monotone:
  assumes "valid_date d1" and "valid_date d2" and "d1 \<le> d2" and "0 \<le> plazo c"
    and "\<forall>p\<in>set ps. id_credito p = indice c \<longrightarrow> \<not> (d1 < fecha_pago p \<and> fecha_pago p \<le> d2)"
  shows "(\<forall>x y. dias_sin_pagar c (fecha_ultimo_pago c ps d1) d1 = Some x \<and>
            dias_sin_pagar c (fecha_ultimo_pago c ps d2) d2 = Some y \<longrightarrow> x \<le> y) \<and>
         (atraso_pagos c (pagos_requeridos c d1) (monto_pagado c ps d1) \<noteq> NaN \<and>
          atraso_pagos c (pagos_requeridos c d2) (monto_pagado c ps d2) \<noteq> NaN \<longrightarrow>
            flt_le (atraso_pagos c (pagos_requeridos c d1) (monto_pagado c ps d1))
                   (atraso_pagos c (pagos_requeridos c d2) (monto_pagado c ps d2)))"
proof -
  have g: "grupo c (pagos_filtrados ps d1) = grupo c (pagos_filtrados ps d2)"
    using assms(3,5) by (rule grupo_same)
  have u: "fecha_ultimo_pago c ps d1 = fecha_ultimo_pago c ps d2"
    by (simp add: fecha_ultimo_pago_def g)
  have dias: "x \<le> y"
    if "dias_sin_pagar c (fecha_ultimo_pago c ps d1) d1 = Some x \<and>
        dias_sin_pagar c (fecha_ultimo_pago c ps d2) d2 = Some y" for x y
    using that dias_mono [OF assms(1-3), of c "fecha_ultimo_pago c ps d2" x y] by (simp add: u)
  have atraso: "flt_le (atraso_pagos c (pagos_requeridos c d1) (monto_pagado c ps d1))
                   (atraso_pagos c (pagos_requeridos c d2) (monto_pagado c ps d2))"
    if h: "atraso_pagos c (pagos_requeridos c d1) (monto_pagado c ps d1) \<noteq> NaN \<and>
        atraso_pagos c (pagos_requeridos c d2) (monto_pagado c ps d2) \<noteq> NaN"
  proof -
    from h obtain n1 n2 where n: "pagos_requeridos c d1 = Some n1" "pagos_requeridos c d2 = Some n2"
      by (auto simp: atraso_NaN_iff)
    then have op: "fecha_apertura c \<le> d1" "fecha_apertura c \<le> d2"
      by (simp_all add: pagos_requeridos_def Let_def split: if_splits)
    have m: "monto_pagado c ps d1 = monto_pagado c ps d2"
      using g op by (rule monto_pagado_same)
    have "n1 \<le> n2" using assms(1-4) n by (rule pagos_requeridos_mono)
    then show ?thesis using h atraso_mono [of n1 n2 c "monto_pagado c ps d2"]
      by (simp add: n m)
  qed
  show ?thesis using dias atraso by blast
qed

lemma monotone_values:
  shows "dias_sin_pagar credito_ejemplo
           (fecha_ultimo_pago credito_ejemplo pagos_orden (2023, 5, 15)) (2023, 5, 15) = Some 14"
    and "dias_sin_pagar credito_ejemplo
           (fecha_ultimo_pago credito_ejemplo pagos_orden (2023, 6, 15)) (2023, 6, 15) = Some 45"
    and "atraso_pagos credito_ejemplo (pagos_requeridos credito_ejemplo (2023, 5, 15))
           (monto_pagado credito_ejemplo pagos_orden (2023, 5, 15)) = Fin 2"
    and "atraso_pagos credito_ejemplo (pagos_requeridos credito_ejemplo (2023, 6, 15))
           (monto_pagado credito_ejemplo pagos_orden (2023, 6, 15)) = Fin 3"
  by code_simp+

theorem dias_atraso_monotone_witness:
  "valid_date (2023, 5, 15) \<and> valid_date (2023, 6, 15) \<and>
   ((2023, 5, 15) :: date) \<le> (2023, 6, 15) \<and> 0 \<le> plazo credito_ejemplo \<and>
   dias_sin_pagar credito_ejemplo
     (fecha_ultimo_pago credito_ejemplo pagos_orden (2023, 5, 15)) (2023, 5, 15) = Some 14 \<and>
   dias_sin_pagar credito_ejemplo
     (fecha_ultimo_pago credito_ejemplo pagos_orden (2023, 6, 15)) (2023, 6, 15) = Some 45 \<and>
   (14 :: int) \<le> 45 \<and>
   flt_le (atraso_pagos credito_ejemplo (pagos_requeridos credito_ejemplo (2023, 5, 15))
             (monto_pagado credito_ejemplo pagos_orden (2023, 5, 15)))
          (atraso_pagos credito_ejemplo (pagos_requeridos credito_ejemplo (2023, 6, 15))
             (monto_pagado credito_ejemplo pagos_orden (2023, 6, 15)))"
proof -
  have v: "valid_date (2023, 5, 15)" "valid_date (2023, 6, 15)"
    by (simp_all add: valid_date_def date_simps)
  have l: "((2023, 5, 15) :: date) \<le> (2023, 6, 15)" by simp
  have p: "0 \<le> plazo credito_ejemplo" by (simp add: credito_ejemplo_def)
  have q: "\<forall>p\<in>set pagos_orden. id_credito p = indice credito_ejemplo \<longrightarrow>
      \<not> ((2023, 5, 15) < fecha_pago p \<and> fecha_pago p \<le> (2023, 6, 15))"
    by (simp add: pagos_orden_def credito_ejemplo_def)
  note t = dias_atraso_monotone [OF v l p q]
  have "flt_le (atraso_pagos credito_ejemplo (pagos_requeridos credito_ejemplo (2023, 5, 15))
             (monto_pagado credito_ejemplo pagos_orden (2023, 5, 15)))
          (atraso_pagos credito_ejemplo (pagos_requeridos credito_ejemplo (2023, 6, 15))
             (monto_pagado credito_ejemplo pagos_orden (2023, 6, 15)))"
    using t by (simp add: monotone_values)
  moreover have "(14 :: int) \<le> 45"
    using t monotone_values(1,2) by blast
  ultimately show ?thesis using v l p by (simp add: monotone_values(1,2))
qed

text \<open>
  Against C6 as stated: for the credit with term \<open>- 1\<close> and an empty ledger the clipped
  installment count is 0 on 2022-08-15 and \<open>- 1\<close> on 2023-01-15, so the arrears count
  goes from 0 down to \<open>- 1\<close> while the reference date advances and no payment is
  recorded.
\<close>

theorem dias_atraso_monotone_counterexample:
  "((2022, 8, 15) :: date) \<le> (2023, 1, 15) \<and>
   pagos_requeridos credito_plazo_negativo (2022, 8, 15) = Some 0 \<and>
   pagos_requeridos credito_plazo_negativo (2023, 1, 15) = Some (- 1) \<and>
   atraso_pagos credito_plazo_negativo (pagos_requeridos credito_plazo_negativo (2022, 8, 15))
     (monto_pagado credito_plazo_negativo [] (2022, 8, 15)) = Fin 0 \<and>
   atraso_pagos credito_plazo_negativo (pagos_requeridos credito_plazo_negativo (2023, 1, 15))
     (monto_pagado credito_plazo_negativo [] (2023, 1, 15)) = Fin (- 1) \<and>
   \<not> flt_le (Fin 0) (Fin (- 1))"
  by code_simp

end
